theory Spec2Isabelle
  imports Main
begin

section \<open>The data tree.c works on\<close>

text \<open>
  \<^verbatim>\<open>src/tree.c\<close> is the glue between the Python objects \<^verbatim>\<open>TreeEntry\<close>, \<^verbatim>\<open>Tree\<close> and
  \<^verbatim>\<open>TreeIter\<close> and the library libgit2. The library's structs are opaque to the file:
  it reads them through accessor functions only. An opaque struct is therefore
  represented by the values its accessors return, and the field of the record carries
  the accessor's name, so that \<open>git_tree_entry_id e\<close> reads as in the C text.

  Integer widths are those of an LP64 platform: \<^verbatim>\<open>int\<close> has 32 bits, \<^verbatim>\<open>long\<close> and
  \<^verbatim>\<open>size_t\<close> have 64, a pointer has 8 bytes. Python is Python 3, where
  \<^verbatim>\<open>PyInt_Check\<close> and \<^verbatim>\<open>PyInt_AsLong\<close> stand for \<^verbatim>\<open>PyLong_Check\<close> and \<^verbatim>\<open>PyLong_AsLong\<close>.
\<close>

type_synonym git_oid = "nat list"  \<comment> \<open>the raw bytes of an object id\<close>

datatype git_otype = GIT_OBJ_COMMIT | GIT_OBJ_TREE | GIT_OBJ_BLOB | GIT_OBJ_TAG

record git_tree_entry =
  git_tree_entry_name :: string
  git_tree_entry_filemode :: nat
  git_tree_entry_id :: git_oid
  git_tree_entry_type :: git_otype

text \<open>A \<^verbatim>\<open>git_tree\<close> is the sequence of its entries, in the order libgit2 stores them.\<close>

type_synonym git_tree = "git_tree_entry list"

type_synonym git_repository = nat  \<comment> \<open>a handle; the library alone looks behind it\<close>
type_synonym git_index = string  \<comment> \<open>the bytes of a \<^verbatim>\<open>git_index *\<close>\<close>
type_synonym git_diff = nat  \<comment> \<open>a handle to a diff the library computed\<close>

datatype git_object = Git_Tree git_tree | Git_Blob string | Git_Other nat

record git_diff_options =
  flags :: nat
  context_lines :: nat
  interhunk_lines :: nat

definition GIT_ENOTFOUND :: int where
  "GIT_ENOTFOUND = - 3"

text \<open>The Python objects of the file: \<^verbatim>\<open>repo\<close> is a pointer that may be \<^verbatim>\<open>NULL\<close>.\<close>

record Repository =
  r_repo :: git_repository

record TreeEntry =
  te_entry :: git_tree_entry
  te_repo :: "Repository option"

record Tree =
  t_tree :: git_tree
  t_repo :: "Repository option"

record TreeIter =
  it_owner :: Tree
  it_i :: nat

text \<open>
  The Python values that reach the file. \<open>PyInstance cls attrs\<close> is an instance of a
  class written in Python, with the name of its class and its attributes; the classes
  of pygit2 that are written in Python, such as \<^verbatim>\<open>pygit2.index.Index\<close>, are of this kind.
\<close>

datatype py_object =
    Py_None
  | Py_True
  | Py_False
  | Py_NotImplemented
  | PyInt int
  | PyBytes string
  | PyUnicode string
  | PyTreeEntry TreeEntry
  | PyTree Tree
  | PyGitObject git_object "Repository option"
  | PyDiff git_diff Repository
  | PyInstance string "(string \<times> py_object) list"

text \<open>
  What a call ends in when it does not return a value: a pending Python exception, or
  a read through a \<^verbatim>\<open>NULL\<close> pointer, which is no exception but the end of the process.
  \<open>Error_set err\<close> is the exception that \<^verbatim>\<open>Error_set(err)\<close> of \<^verbatim>\<open>error.c\<close> raises for
  the libgit2 error code \<open>err\<close>, and \<open>RuntimeError_op op\<close> is
  \<^verbatim>\<open>PyErr_Format(PyExc_RuntimeError, "Unexpected '%d' op", op)\<close>.
\<close>

datatype error =
    TypeError string
  | ValueError string
  | IndexError py_object
  | KeyError py_object
  | AttributeError string
  | MemoryError
  | OverflowError
  | RuntimeError_op int
  | Error_set int
  | NULL_dereference

section \<open>The library and the helpers outside tree.c\<close>

text \<open>
  The functions of libgit2 whose results the file does not look into are fields of a
  record, the environment \<open>g\<close> of a call: every statement below that is made for all
  \<open>g\<close> holds for whatever the library answers. A function with an out-parameter
  returns the pair of its return code and the out-parameter.
  \<open>py_path_to_c_str\<close> is the path conversion of \<^verbatim>\<open>utils.h\<close>: the C string, or \<^verbatim>\<open>NULL\<close>
  with the exception it raised.
\<close>

record env =
  git_tree_entry_cmp :: "git_tree_entry \<Rightarrow> git_tree_entry \<Rightarrow> int"
  git_oid_cmp :: "git_oid \<Rightarrow> git_oid \<Rightarrow> int"
  git_tree_lookup :: "git_repository \<Rightarrow> git_oid \<Rightarrow> int \<times> git_tree"
  git_tree_entry_to_object :: "git_repository \<Rightarrow> git_tree_entry \<Rightarrow> int \<times> git_object"
  git_tree_entry_bypath :: "git_tree \<Rightarrow> string \<Rightarrow> int \<times> git_tree_entry"
  git_diff_tree_to_workdir ::
    "git_repository \<Rightarrow> git_tree \<Rightarrow> git_diff_options \<Rightarrow> int \<times> git_diff"
  git_diff_tree_to_index ::
    "git_repository \<Rightarrow> git_tree \<Rightarrow> git_index \<Rightarrow> git_diff_options \<Rightarrow> int \<times> git_diff"
  git_diff_tree_to_tree ::
    "git_repository \<Rightarrow> git_tree option \<Rightarrow> git_tree option \<Rightarrow> git_diff_options
      \<Rightarrow> int \<times> git_diff"
  py_path_to_c_str :: "py_object \<Rightarrow> error + string"

definition git_tree_entrycount :: "git_tree \<Rightarrow> nat" where
  "git_tree_entrycount tree = length tree"

text \<open>\<^verbatim>\<open>git_tree_entry_byindex\<close> answers \<^verbatim>\<open>NULL\<close> for a position past the last entry.\<close>

definition git_tree_entry_byindex :: "git_tree \<Rightarrow> nat \<Rightarrow> git_tree_entry option" where
  "git_tree_entry_byindex tree idx = (if idx < length tree then Some (tree ! idx) else None)"

text \<open>
  \<^verbatim>\<open>git_tree_entry_dup\<close> copies an entry; it fails only when the allocator does, which
  the flag \<open>mem\<close> says.
\<close>

definition git_tree_entry_dup :: "bool \<Rightarrow> git_tree_entry \<Rightarrow> int \<times> git_tree_entry" where
  "git_tree_entry_dup mem src = (if mem then (0, src) else (- 1, src))"

text \<open>
  Modelled from the spec: \<^verbatim>\<open>wrap_object\<close> (\<^verbatim>\<open>object.c\<close>) and \<^verbatim>\<open>wrap_diff\<close> (\<^verbatim>\<open>diff.c\<close>) are
  not in the file; they put a library object and the repository into a Python object
  (``an opaque Diff handle'', ``resolving an Entry's content into a full Tree or Blob'').
\<close>

definition wrap_object :: "git_object \<Rightarrow> Repository option \<Rightarrow> py_object" where
  "wrap_object obj repo = PyGitObject obj repo"

definition wrap_diff :: "git_diff \<Rightarrow> Repository \<Rightarrow> py_object" where
  "wrap_diff diff repo = PyDiff diff repo"

subsection \<open>The C API of Python\<close>

definition Py_LT :: int where "Py_LT = 0"
definition Py_LE :: int where "Py_LE = 1"
definition Py_EQ :: int where "Py_EQ = 2"
definition Py_NE :: int where "Py_NE = 3"
definition Py_GT :: int where "Py_GT = 4"
definition Py_GE :: int where "Py_GE = 5"

text \<open>\<^verbatim>\<open>PyObject_TypeCheck(b, &TreeEntryType)\<close>: a TreeEntry or an instance of a subtype.\<close>

fun PyObject_TypeCheck_TreeEntry :: "py_object \<Rightarrow> bool" where
  "PyObject_TypeCheck_TreeEntry (PyTreeEntry _) = True"
| "PyObject_TypeCheck_TreeEntry _ = False"

text \<open>\<^verbatim>\<open>bool\<close> is a subtype of \<^verbatim>\<open>int\<close>, so \<^verbatim>\<open>True\<close> and \<^verbatim>\<open>False\<close> pass \<^verbatim>\<open>PyInt_Check\<close>.\<close>

fun PyInt_Check :: "py_object \<Rightarrow> bool" where
  "PyInt_Check (PyInt _) = True"
| "PyInt_Check Py_True = True"
| "PyInt_Check Py_False = True"
| "PyInt_Check _ = False"

definition LONG_MIN :: int where "LONG_MIN = - (2 ^ 63)"
definition LONG_MAX :: int where "LONG_MAX = 2 ^ 63 - 1"

definition long_of_int :: "int \<Rightarrow> error + int" where
  "long_of_int i = (if LONG_MIN \<le> i \<and> i \<le> LONG_MAX then Inr i else Inl OverflowError)"

text \<open>
  \<^verbatim>\<open>PyLong_AsLong\<close>: the value when it fits a \<^verbatim>\<open>long\<close>, else \<^verbatim>\<open>OverflowError\<close>; an object that
  is no integer raises \<^verbatim>\<open>TypeError\<close>.
\<close>

fun PyInt_AsLong :: "py_object \<Rightarrow> error + int" where
  "PyInt_AsLong (PyInt i) = long_of_int i"
| "PyInt_AsLong Py_True = Inr 1"
| "PyInt_AsLong Py_False = Inr 0"
| "PyInt_AsLong _ = Inl (TypeError ''an integer is required'')"

text \<open>
  \<^verbatim>\<open>PyObject_GetAttrString\<close>: \<^verbatim>\<open>NULL\<close> when the object has no such attribute. Only instances
  carry attributes in this model; the other objects have none of the two names the file
  asks for, \<^verbatim>\<open>_index\<close> and \<^verbatim>\<open>_pointer\<close>.
\<close>

fun PyObject_GetAttrString :: "py_object \<Rightarrow> string \<Rightarrow> py_object option" where
  "PyObject_GetAttrString (PyInstance cls attrs) name = map_of attrs name"
| "PyObject_GetAttrString _ name = None"

fun PyBytes_AsStringAndSize :: "py_object \<Rightarrow> error + string" where
  "PyBytes_AsStringAndSize (PyBytes buffer) = Inr buffer"
| "PyBytes_AsStringAndSize _ = Inl (TypeError ''expected bytes'')"

subsection \<open>Conversions between the integer types of C\<close>

definition to_long :: "int \<Rightarrow> int" where
  "to_long x = signed_take_bit 63 x"

definition to_int :: "int \<Rightarrow> int" where
  "to_int x = signed_take_bit 31 x"

definition to_size_t :: "int \<Rightarrow> int" where
  "to_size_t x = take_bit 64 x"

section \<open>TreeEntry\<close>

definition compare_ids :: "env \<Rightarrow> TreeEntry \<Rightarrow> TreeEntry \<Rightarrow> int" where
  "compare_ids g a b =
     (let id_a = git_tree_entry_id (te_entry a);
          id_b = git_tree_entry_id (te_entry b)
      in git_oid_cmp g id_a id_b)"

text \<open>
  In \<^verbatim>\<open>TreeEntry_richcompare\<close> the test \<^verbatim>\<open>PyObject_TypeCheck(b, &TreeEntryType)\<close> and the cast
  \<^verbatim>\<open>(TreeEntry *) b\<close> after it are the pattern \<open>PyTreeEntry tb\<close>; every other object takes
  the second equation.
\<close>

fun TreeEntry_richcompare :: "env \<Rightarrow> TreeEntry \<Rightarrow> py_object \<Rightarrow> int \<Rightarrow> error + py_object" where
  "TreeEntry_richcompare g ta (PyTreeEntry tb) op =
     (let cmp = git_tree_entry_cmp g (te_entry ta) (te_entry tb);
          cmp = (if cmp = 0 then compare_ids g ta tb else cmp)
      in if op = Py_LT then Inr (if cmp \<le> 0 then Py_True else Py_False)
         else if op = Py_LE then Inr (if cmp < 0 then Py_True else Py_False)
         else if op = Py_EQ then Inr (if cmp = 0 then Py_True else Py_False)
         else if op = Py_NE then Inr (if cmp \<noteq> 0 then Py_True else Py_False)
         else if op = Py_GT then Inr (if cmp > 0 then Py_True else Py_False)
         else if op = Py_GE then Inr (if cmp \<ge> 0 then Py_True else Py_False)
         else Inl (RuntimeError_op op))"
| "TreeEntry_richcompare g ta b op = Inr Py_NotImplemented"

definition treeentry_to_subtree :: "env \<Rightarrow> TreeEntry \<Rightarrow> error + git_tree" where
  "treeentry_to_subtree g self =
     (if git_tree_entry_type (te_entry self) \<noteq> GIT_OBJ_TREE
      then Inl (TypeError ''Only for trees'')
      else (case te_repo self of
        None \<Rightarrow> Inl (ValueError ''No repository associated with this TreeEntry'')
      | Some py_repo \<Rightarrow>
          (let (err, subtree) =
                 git_tree_lookup g (r_repo py_repo) (git_tree_entry_id (te_entry self))
           in if err < 0 then Inl (Error_set err) else Inr subtree)))"

definition treeentry_to_object :: "env \<Rightarrow> TreeEntry \<Rightarrow> error + py_object" where
  "treeentry_to_object g self =
     (case te_repo self of
        None \<Rightarrow> Inl (ValueError ''No repository associated with this TreeEntry'')
      | Some py_repo \<Rightarrow>
          (let (err, obj) = git_tree_entry_to_object g (r_repo py_repo) (te_entry self)
           in if err < 0 then Inl (Error_set err) else Inr (wrap_object obj (Some py_repo))))"

text \<open>
  \<open>TreeEntry_tree_get\<close> and \<open>TreeEntry_blob_get\<close> are the getters \<^verbatim>\<open>TreeEntry_tree__get__\<close>
  and \<^verbatim>\<open>TreeEntry_blob__get__\<close>.
\<close>

definition TreeEntry_tree_get :: "env \<Rightarrow> TreeEntry \<Rightarrow> error + py_object" where
  "TreeEntry_tree_get g self =
     (case treeentry_to_subtree g self of
        Inl e \<Rightarrow> Inl e
      | Inr subtree \<Rightarrow> Inr (wrap_object (Git_Tree subtree) (te_repo self)))"

definition TreeEntry_blob_get :: "env \<Rightarrow> TreeEntry \<Rightarrow> error + py_object" where
  "TreeEntry_blob_get g self =
     (if git_tree_entry_type (te_entry self) \<noteq> GIT_OBJ_BLOB
      then Inl (TypeError ''Only for blobs'')
      else treeentry_to_object g self)"

section \<open>Tree\<close>

definition Tree_len :: "Tree \<Rightarrow> int" where
  "Tree_len self = int (git_tree_entrycount (t_tree self))"

text \<open>
  \<^verbatim>\<open>sq_contains\<close> answers \<^verbatim>\<open>-1\<close> with an exception, \<^verbatim>\<open>0\<close> or \<^verbatim>\<open>1\<close>: an error, \<open>False\<close> or
  \<open>True\<close> here.
\<close>

definition Tree_contains :: "env \<Rightarrow> Tree \<Rightarrow> py_object \<Rightarrow> error + bool" where
  "Tree_contains g self py_name =
     (case py_path_to_c_str g py_name of
        Inl e \<Rightarrow> Inl e
      | Inr name \<Rightarrow>
          (let (err, entry) = git_tree_entry_bypath g (t_tree self) name
           in if err = GIT_ENOTFOUND then Inr False
              else if err < 0 then Inl (Error_set err)
              else Inr True))"

text \<open>
  \<^verbatim>\<open>PyObject_New(TreeEntry, &TreeEntryType)\<close> answers \<^verbatim>\<open>NULL\<close>, with \<^verbatim>\<open>MemoryError\<close> pending, when
  the allocator has no memory, and otherwise a block whose fields it does not set: the
  field \<^verbatim>\<open>repo\<close> of the block holds what the memory held before, \<^verbatim>\<open>NULL\<close> or a pointer that
  an earlier object left there.
\<close>

datatype fresh_TreeEntry = No_memory | Block "Repository option"

text \<open>
  \<^verbatim>\<open>wrap_tree_entry\<close> takes the answer of \<^verbatim>\<open>PyObject_New\<close> as \<open>py_entry\<close>. It always stores
  the entry, and it stores the repository only when there is one: for \<^verbatim>\<open>NULL\<close> the field
  \<^verbatim>\<open>repo\<close> of the new object stays as the block had it.
\<close>

definition wrap_tree_entry ::
  "fresh_TreeEntry \<Rightarrow> git_tree_entry \<Rightarrow> Repository option \<Rightarrow> TreeEntry option" where
  "wrap_tree_entry py_entry entry repo =
     (case py_entry of
        No_memory \<Rightarrow> None
      | Block stale \<Rightarrow>
          Some \<lparr>te_entry = entry,
                te_repo = (case repo of Some r \<Rightarrow> Some r | None \<Rightarrow> stale)\<rparr>)"

text \<open>
  A function that returns what \<^verbatim>\<open>wrap_tree_entry\<close> answered returns \<^verbatim>\<open>NULL\<close> with the
  \<^verbatim>\<open>MemoryError\<close> of \<^verbatim>\<open>PyObject_New\<close> pending, or the new object.
\<close>

definition or_MemoryError :: "TreeEntry option \<Rightarrow> error + TreeEntry" where
  "or_MemoryError py_entry = (case py_entry of None \<Rightarrow> Inl MemoryError | Some e \<Rightarrow> Inr e)"

text \<open>
  \<^verbatim>\<open>Tree_fix_index\<close> answers an \<^verbatim>\<open>int\<close>, or \<^verbatim>\<open>-1\<close> with an exception pending; its caller asks
  \<^verbatim>\<open>PyErr_Occurred()\<close>, so the exception alone tells the two apart. \<^verbatim>\<open>len + index\<close> is
  computed in \<^verbatim>\<open>size_t\<close> and stored into a \<^verbatim>\<open>long\<close>.
\<close>

definition Tree_fix_index :: "git_tree \<Rightarrow> py_object \<Rightarrow> error + int" where
  "Tree_fix_index tree py_index =
     (case PyInt_AsLong py_index of
        Inl e \<Rightarrow> Inl e
      | Inr index \<Rightarrow>
          (let len = to_size_t (int (git_tree_entrycount tree));
               slen = to_long len
           in if index \<ge> slen then Inl (IndexError py_index)
              else if index < to_long (- slen) then Inl (IndexError py_index)
              else let index = (if index < 0 then to_long (to_size_t (len + to_size_t index))
                                else index)
                   in Inr (to_int index)))"

definition Tree_iter :: "Tree \<Rightarrow> TreeIter" where
  "Tree_iter self = \<lparr>it_owner = self, it_i = 0\<rparr>"

definition tree_getitem_by_index ::
  "bool \<Rightarrow> fresh_TreeEntry \<Rightarrow> git_tree \<Rightarrow> Repository option \<Rightarrow> py_object
    \<Rightarrow> error + TreeEntry" where
  "tree_getitem_by_index mem py_entry tree repo py_index =
     (case Tree_fix_index tree py_index of
        Inl e \<Rightarrow> Inl e
      | Inr index \<Rightarrow>
          (case git_tree_entry_byindex tree (nat (to_size_t index)) of
             None \<Rightarrow> Inl (IndexError py_index)
           | Some entry_src \<Rightarrow>
               (let (rc, entry) = git_tree_entry_dup mem entry_src
                in if rc < 0 then Inl MemoryError
                   else or_MemoryError (wrap_tree_entry py_entry entry repo))))"

definition tree_getitem_by_path ::
  "env \<Rightarrow> fresh_TreeEntry \<Rightarrow> git_tree \<Rightarrow> Repository option \<Rightarrow> py_object
    \<Rightarrow> error + TreeEntry" where
  "tree_getitem_by_path g py_entry tree repo py_path =
     (case py_path_to_c_str g py_path of
        Inl e \<Rightarrow> Inl (TypeError ''Value must be a path string'')
      | Inr path \<Rightarrow>
          (let (err, entry) = git_tree_entry_bypath g tree path
           in if err = GIT_ENOTFOUND then Inl (KeyError py_path)
              else if err < 0 then Inl (Error_set err)
              else or_MemoryError (wrap_tree_entry py_entry entry repo)))"

definition Tree_getitem ::
  "env \<Rightarrow> bool \<Rightarrow> fresh_TreeEntry \<Rightarrow> Tree \<Rightarrow> py_object \<Rightarrow> error + TreeEntry" where
  "Tree_getitem g mem py_entry self val =
     (if PyInt_Check val
      then tree_getitem_by_index mem py_entry (t_tree self) (t_repo self) val
      else tree_getitem_by_path g py_entry (t_tree self) (t_repo self) val)"

definition Tree_truediv ::
  "env \<Rightarrow> fresh_TreeEntry \<Rightarrow> Tree \<Rightarrow> py_object \<Rightarrow> error + TreeEntry" where
  "Tree_truediv g py_entry self val =
     tree_getitem_by_path g py_entry (t_tree self) (t_repo self) val"

subsection \<open>The operations of a TreeEntry that go through its subtree\<close>

definition TreeEntry_contains :: "env \<Rightarrow> TreeEntry \<Rightarrow> py_object \<Rightarrow> error + bool" where
  "TreeEntry_contains g self py_name =
     (case treeentry_to_subtree g self of
        Inl e \<Rightarrow> Inl e
      | Inr subtree \<Rightarrow>
          (case py_path_to_c_str g py_name of
             Inl e \<Rightarrow> Inl e
           | Inr name \<Rightarrow>
               (let (err, entry) = git_tree_entry_bypath g subtree name
                in if err = GIT_ENOTFOUND then Inr False
                   else if err < 0 then Inl (Error_set err)
                   else Inr True)))"

definition TreeEntry_getitem ::
  "env \<Rightarrow> bool \<Rightarrow> fresh_TreeEntry \<Rightarrow> TreeEntry \<Rightarrow> py_object \<Rightarrow> error + TreeEntry" where
  "TreeEntry_getitem g mem py_entry self val =
     (case treeentry_to_subtree g self of
        Inl e \<Rightarrow> Inl e
      | Inr subtree \<Rightarrow>
          (if PyInt_Check val
           then tree_getitem_by_index mem py_entry subtree (te_repo self) val
           else tree_getitem_by_path g py_entry subtree (te_repo self) val))"

definition TreeEntry_truediv ::
  "env \<Rightarrow> fresh_TreeEntry \<Rightarrow> TreeEntry \<Rightarrow> py_object \<Rightarrow> error + TreeEntry" where
  "TreeEntry_truediv g py_entry self val =
     (case treeentry_to_subtree g self of
        Inl e \<Rightarrow> Inl e
      | Inr subtree \<Rightarrow> tree_getitem_by_path g py_entry subtree (te_repo self) val)"

subsection \<open>The three diffs\<close>

text \<open>
  The first argument of each is what \<^verbatim>\<open>PyArg_ParseTuple\<close> made of the Python arguments:
  the exception it raised, or the values it stored. \<^verbatim>\<open>self->repo\<close> is read through
  without a test in all three.
\<close>

definition Tree_diff_to_workdir ::
  "env \<Rightarrow> Tree \<Rightarrow> error + git_diff_options \<Rightarrow> error + py_object" where
  "Tree_diff_to_workdir g self args =
     (case args of
        Inl e \<Rightarrow> Inl e
      | Inr opts \<Rightarrow>
          (case t_repo self of
             None \<Rightarrow> Inl NULL_dereference
           | Some py_repo \<Rightarrow>
               (let (err, diff) = git_diff_tree_to_workdir g (r_repo py_repo) (t_tree self) opts
                in if err < 0 then Inl (Error_set err) else Inr (wrap_diff diff py_repo))))"

definition Tree_diff_to_index ::
  "env \<Rightarrow> Tree \<Rightarrow> error + py_object \<times> git_diff_options \<Rightarrow> error + py_object" where
  "Tree_diff_to_index g self args =
     (case args of
        Inl e \<Rightarrow> Inl e
      | Inr (py_idx, opts) \<Rightarrow>
          (case PyObject_GetAttrString py_idx ''_index'' of
             None \<Rightarrow> Inl (TypeError ''argument must be an Index'')
           | Some _ \<Rightarrow>
               (case PyObject_GetAttrString py_idx ''_pointer'' of
                  None \<Rightarrow> Inl (AttributeError ''_pointer'')
                | Some py_idx_ptr \<Rightarrow>
                    (case PyBytes_AsStringAndSize py_idx_ptr of
                       Inl e \<Rightarrow> Inl e
                     | Inr buffer \<Rightarrow>
                         if length buffer \<noteq> 8
                         then Inl (TypeError ''passed value is not a pointer'')
                         else (case t_repo self of
                           None \<Rightarrow> Inl NULL_dereference
                         | Some py_repo \<Rightarrow>
                             (let index = buffer;
                                  (err, diff) = git_diff_tree_to_index g (r_repo py_repo)
                                                  (t_tree self) index opts
                              in if err < 0 then Inl (Error_set err)
                                 else Inr (wrap_diff diff py_repo)))))))"

definition Tree_diff_to_tree ::
  "env \<Rightarrow> Tree \<Rightarrow> error + Tree option \<times> git_diff_options \<times> int \<Rightarrow> error + py_object" where
  "Tree_diff_to_tree g self args =
     (case args of
        Inl e \<Rightarrow> Inl e
      | Inr (py_tree, opts, swap) \<Rightarrow>
          (let to = (case py_tree of None \<Rightarrow> None | Some t \<Rightarrow> Some (t_tree t));
               from = Some (t_tree self);
               (from, to) = (if swap > 0 then (to, from) else (from, to))
           in case t_repo self of
                None \<Rightarrow> Inl NULL_dereference
              | Some py_repo \<Rightarrow>
                  (let (err, diff) = git_diff_tree_to_tree g (r_repo py_repo) from to opts
                   in if err < 0 then Inl (Error_set err) else Inr (wrap_diff diff py_repo))))"

section \<open>TreeIter\<close>

text \<open>
  \<^verbatim>\<open>TreeIter_iternext\<close> changes \<^verbatim>\<open>self->i\<close>: it returns the iterator as it leaves it, next to
  its answer. \<open>Inr None\<close> is \<^verbatim>\<open>NULL\<close> with no exception pending, which ends an iteration;
  \<^verbatim>\<open>NULL\<close> from \<^verbatim>\<open>wrap_tree_entry\<close> comes with the \<^verbatim>\<open>MemoryError\<close> of \<^verbatim>\<open>PyObject_New\<close>.
\<close>

definition TreeIter_iternext ::
  "bool \<Rightarrow> fresh_TreeEntry \<Rightarrow> TreeIter \<Rightarrow> (error + TreeEntry option) \<times> TreeIter" where
  "TreeIter_iternext mem py_entry self =
     (case git_tree_entry_byindex (t_tree (it_owner self)) (it_i self) of
        None \<Rightarrow> (Inr None, self)
      | Some entry_src \<Rightarrow>
          (let self = self\<lparr>it_i := it_i self + 1\<rparr>;
               (rc, entry) = git_tree_entry_dup mem entry_src
           in if rc < 0 then (Inl MemoryError, self)
              else (case wrap_tree_entry py_entry entry (t_repo (it_owner self)) of
                      None \<Rightarrow> (Inl MemoryError, self)
                    | Some e \<Rightarrow> (Inr (Some e), self))))"

section \<open>Callers\<close>

text \<open>
  What Python does with an iterator. An iterator asks for memory at most once at each
  position of its cursor, since the cursor goes up before the copy is made; so what the
  allocator does for an iterator is a function of the position: whether the copy
  succeeds, and what \<^verbatim>\<open>PyObject_New\<close> answers. \<open>py_list\<close> is \<^verbatim>\<open>list(it)\<close>: it asks for the
  next entry until the iterator ends or raises. \<open>nexts\<close> calls \<^verbatim>\<open>next\<close> once for every
  element of a list, which says for each call what the allocator does. \<open>interleave\<close> runs
  two iterators in the order a schedule gives (\<open>True\<close>: the first iterator is asked),
  with memory at hand, and collects what each one yields; each iterator has its own
  blocks, whose fields \<^verbatim>\<open>repo\<close> hold what \<open>stale1\<close> and \<open>stale2\<close> say.
\<close>

function py_list :: "(nat \<Rightarrow> bool \<times> fresh_TreeEntry) \<Rightarrow> TreeIter \<Rightarrow> error + TreeEntry list" where
  "py_list memory it =
     (case TreeIter_iternext (fst (memory (it_i it))) (snd (memory (it_i it))) it of
        (Inl e, it') \<Rightarrow> Inl e
      | (Inr None, it') \<Rightarrow> Inr []
      | (Inr (Some x), it') \<Rightarrow>
          (case py_list memory it' of Inl e \<Rightarrow> Inl e | Inr xs \<Rightarrow> Inr (x # xs)))"
  by pat_completeness auto
termination
  apply (relation "measure (\<lambda>(memory, it). length (t_tree (it_owner it)) - it_i it)")
   apply simp
  apply (auto simp: TreeIter_iternext_def git_tree_entry_byindex_def git_tree_entry_dup_def
      Let_def split: if_splits option.splits)
  done

fun nexts ::
  "(bool \<times> fresh_TreeEntry) list \<Rightarrow> TreeIter \<Rightarrow> (error + TreeEntry option) list \<times> TreeIter" where
  "nexts [] it = ([], it)"
| "nexts ((mem, py_entry) # mems) it =
     (let (r, it') = TreeIter_iternext mem py_entry it;
          (rs, it'') = nexts mems it'
      in (r # rs, it''))"

fun yielded :: "error + TreeEntry option \<Rightarrow> TreeEntry list" where
  "yielded (Inr (Some x)) = [x]"
| "yielded _ = []"

fun interleave ::
  "bool list \<Rightarrow> (nat \<Rightarrow> Repository option) \<times> (nat \<Rightarrow> Repository option)
    \<Rightarrow> TreeIter \<times> TreeIter \<Rightarrow> TreeEntry list \<times> TreeEntry list" where
  "interleave [] (stale1, stale2) (it1, it2) = ([], [])"
| "interleave (first # sched) (stale1, stale2) (it1, it2) =
     (if first
      then (let (r, it1') = TreeIter_iternext True (Block (stale1 (it_i it1))) it1;
                (xs, ys) = interleave sched (stale1, stale2) (it1', it2)
            in (yielded r @ xs, ys))
      else (let (r, it2') = TreeIter_iternext True (Block (stale2 (it_i it2))) it2;
                (xs, ys) = interleave sched (stale1, stale2) (it1, it2')
            in (xs, yielded r @ ys)))"

section \<open>What the specification says, in its own words\<close>

text \<open>
  The entry sequence of a Tree, each entry as the TreeEntry a lookup hands out: the
  entry at position \<open>i\<close> with the repository of the Tree, and for a Tree without
  repository with what the fresh block held in that field, \<open>stale i\<close>.
\<close>

definition handed_out :: "Repository option \<Rightarrow> Tree \<Rightarrow> nat \<Rightarrow> TreeEntry" where
  "handed_out stale T i =
     \<lparr>te_entry = t_tree T ! i,
      te_repo = (case t_repo T of Some r \<Rightarrow> Some r | None \<Rightarrow> stale)\<rparr>"

definition entries_of :: "(nat \<Rightarrow> Repository option) \<Rightarrow> Tree \<Rightarrow> TreeEntry list" where
  "entries_of stale T = map (\<lambda>i. handed_out (stale i) T i) [0..<length (t_tree T)]"

text \<open>
  The two-level comparison of the specification (4.1): the canonical comparator first,
  the ids when it finds the entries equal; and the six operators read off its result.
\<close>

datatype ordering = LT | EQ | GT

definition ordering_of :: "int \<Rightarrow> ordering" where
  "ordering_of c = (if c < 0 then LT else if c = 0 then EQ else GT)"

definition compare :: "env \<Rightarrow> TreeEntry \<Rightarrow> TreeEntry \<Rightarrow> ordering" where
  "compare g a b =
     (case ordering_of (git_tree_entry_cmp g (te_entry a) (te_entry b)) of
        EQ \<Rightarrow> ordering_of (git_oid_cmp g (git_tree_entry_id (te_entry a))
                 (git_tree_entry_id (te_entry b)))
      | r \<Rightarrow> r)"

definition operator_holds :: "int \<Rightarrow> ordering \<Rightarrow> bool" where
  "operator_holds op r =
     (if op = Py_LT then r = LT
      else if op = Py_LE then r = LT \<or> r = EQ
      else if op = Py_EQ then r = EQ
      else if op = Py_NE then r = LT \<or> r = GT
      else if op = Py_GT then r = GT
      else r = GT \<or> r = EQ)"

definition py_bool :: "bool \<Rightarrow> py_object" where
  "py_bool b = (if b then Py_True else Py_False)"

text \<open>A genuine index is an instance of the class \<^verbatim>\<open>Index\<close> of pygit2.\<close>

fun is_Index :: "py_object \<Rightarrow> bool" where
  "is_Index (PyInstance cls attrs) = (cls = ''Index'')"
| "is_Index _ = False"

text \<open>
  Handing two operands to the diff engine and wrapping what it answers, with nothing
  done to the answer in between.
\<close>

definition engine_diff ::
  "env \<Rightarrow> Repository \<Rightarrow> git_tree option \<Rightarrow> git_tree option \<Rightarrow> git_diff_options
    \<Rightarrow> error + py_object" where
  "engine_diff g py_repo from to opts =
     (let (err, diff) = git_diff_tree_to_tree g (r_repo py_repo) from to opts
      in if err < 0 then Inl (Error_set err) else Inr (wrap_diff diff py_repo))"

section \<open>A small library to run the model on\<close>

text \<open>
  The statements about all environments are applied below to one environment, given
  here. Its object store is a list of trees by id. Its comparators and its path lookup
  are modelled from the spec: libgit2 is not among the sources. 4.4: ``Compare names
  byte-wise, but [...] directory entries compare as if their name carried a trailing
  separator byte''; 3: the id is ``compared byte-wise''; 4.2: the ``path may contain
  multiple /-separated segments; resolution recurses through intermediate subtrees''.
  The path conversion is modelled from the spec as well (4.2): it ``accepts either raw
  bytes or text'' and what is neither fails ``with a type error''.
\<close>

fun bytes_cmp :: "nat list \<Rightarrow> nat list \<Rightarrow> int" where
  "bytes_cmp [] [] = 0"
| "bytes_cmp [] (y # ys) = - 1"
| "bytes_cmp (x # xs) [] = 1"
| "bytes_cmp (x # xs) (y # ys) =
     (if x < y then - 1 else if y < x then 1 else bytes_cmp xs ys)"

definition sort_key :: "git_tree_entry \<Rightarrow> nat list" where
  "sort_key e =
     map of_char (git_tree_entry_name e)
       @ (if git_tree_entry_type e = GIT_OBJ_TREE then [of_char CHR ''/''] else [])"

fun split_path :: "string \<Rightarrow> string list" where
  "split_path [] = [[]]"
| "split_path (c # cs) =
     (if c = CHR ''/'' then [] # split_path cs
      else (case split_path cs of seg # segs \<Rightarrow> (c # seg) # segs | [] \<Rightarrow> [[c]]))"

definition no_entry :: git_tree_entry where
  "no_entry = \<lparr>git_tree_entry_name = [], git_tree_entry_filemode = 0,
     git_tree_entry_id = [], git_tree_entry_type = GIT_OBJ_BLOB\<rparr>"

fun bypath_segments ::
  "(git_oid \<times> git_tree) list \<Rightarrow> git_tree \<Rightarrow> string list \<Rightarrow> int \<times> git_tree_entry" where
  "bypath_segments store root [] = (GIT_ENOTFOUND, no_entry)"
| "bypath_segments store root (seg # rest) =
     (case find (\<lambda>e. git_tree_entry_name e = seg) root of
        None \<Rightarrow> (GIT_ENOTFOUND, no_entry)
      | Some e \<Rightarrow>
          if rest = [] then (0, e)
          else if git_tree_entry_type e \<noteq> GIT_OBJ_TREE then (GIT_ENOTFOUND, no_entry)
          else (case map_of store (git_tree_entry_id e) of
                  None \<Rightarrow> (- 1, no_entry)
                | Some subtree \<Rightarrow> bypath_segments store subtree rest))"

fun path_of_py :: "py_object \<Rightarrow> error + string" where
  "path_of_py (PyBytes b) = Inr b"
| "path_of_py (PyUnicode s) = Inr s"
| "path_of_py _ = Inl (TypeError ''unexpected type'')"

definition example_git :: "(git_oid \<times> git_tree) list \<Rightarrow> env" where
  "example_git store =
     \<lparr>git_tree_entry_cmp = (\<lambda>a b. bytes_cmp (sort_key a) (sort_key b)),
      git_oid_cmp = bytes_cmp,
      git_tree_lookup =
        (\<lambda>repo oid. case map_of store oid of
           None \<Rightarrow> (GIT_ENOTFOUND, []) | Some t \<Rightarrow> (0, t)),
      git_tree_entry_to_object =
        (\<lambda>repo e. case map_of store (git_tree_entry_id e) of
           None \<Rightarrow> (0, Git_Blob []) | Some t \<Rightarrow> (0, Git_Tree t)),
      git_tree_entry_bypath = (\<lambda>root path. bypath_segments store root (split_path path)),
      git_diff_tree_to_workdir = (\<lambda>repo tree opts. (0, length tree)),
      git_diff_tree_to_index = (\<lambda>repo tree index opts. (0, length tree)),
      git_diff_tree_to_tree =
        (\<lambda>repo from to opts.
           (0, 10 * (case from of None \<Rightarrow> 0 | Some t \<Rightarrow> length t)
                 + (case to of None \<Rightarrow> 0 | Some t \<Rightarrow> length t))),
      py_path_to_c_str = path_of_py\<rparr>"

text \<open>
  The tree of the scenario of the specification (8): a file \<^verbatim>\<open>a.txt\<close> and a directory
  \<^verbatim>\<open>b\<close>, which holds one file. Ids are shortened to one byte.
\<close>

definition a_txt :: git_tree_entry where
  "a_txt = \<lparr>git_tree_entry_name = ''a.txt'', git_tree_entry_filemode = 33188,
     git_tree_entry_id = [1], git_tree_entry_type = GIT_OBJ_BLOB\<rparr>"

definition b_dir :: git_tree_entry where
  "b_dir = \<lparr>git_tree_entry_name = ''b'', git_tree_entry_filemode = 16384,
     git_tree_entry_id = [2], git_tree_entry_type = GIT_OBJ_TREE\<rparr>"

definition c_txt :: git_tree_entry where
  "c_txt = \<lparr>git_tree_entry_name = ''c.txt'', git_tree_entry_filemode = 33188,
     git_tree_entry_id = [3], git_tree_entry_type = GIT_OBJ_BLOB\<rparr>"

definition lost_dir :: git_tree_entry where
  "lost_dir = \<lparr>git_tree_entry_name = ''lost'', git_tree_entry_filemode = 16384,
     git_tree_entry_id = [9], git_tree_entry_type = GIT_OBJ_TREE\<rparr>"

definition the_store :: "(git_oid \<times> git_tree) list" where
  "the_store = [([2], [c_txt])]"

definition the_repo :: Repository where
  "the_repo = \<lparr>r_repo = 1\<rparr>"

definition the_tree :: Tree where
  "the_tree = \<lparr>t_tree = [a_txt, b_dir, lost_dir], t_repo = Some the_repo\<rparr>"

definition no_options :: git_diff_options where
  "no_options = \<lparr>flags = 0, context_lines = 3, interhunk_lines = 0\<rparr>"

definition other_tree :: Tree where
  "other_tree = \<lparr>t_tree = [c_txt], t_repo = Some the_repo\<rparr>"

text \<open>The same entries in a Tree without a repository.\<close>

definition bare_tree :: Tree where
  "bare_tree = \<lparr>t_tree = [a_txt, b_dir, lost_dir], t_repo = None\<rparr>"

text \<open>The entries of the tree of the scenario, as a lookup in it hands them out.\<close>

definition entry_of :: "git_tree_entry \<Rightarrow> TreeEntry" where
  "entry_of e = \<lparr>te_entry = e, te_repo = Some the_repo\<rparr>"

text \<open>An object that is no index and carries the two attributes of one.\<close>

definition impostor :: py_object where
  "impostor = PyInstance ''Mock'' [(''_index'', Py_None), (''_pointer'', PyBytes ''AAAAAAAA'')]"

section \<open>Facts about the model\<close>

subsection \<open>Integer conversions inside their ranges\<close>

lemma to_long_id: "- (2 ^ 63) \<le> x \<Longrightarrow> x < 2 ^ 63 \<Longrightarrow> to_long x = x"
  by (simp add: to_long_def signed_take_bit_int_eq_self)

lemma to_int_id: "- (2 ^ 31) \<le> x \<Longrightarrow> x < 2 ^ 31 \<Longrightarrow> to_int x = x"
  by (simp add: to_int_def signed_take_bit_int_eq_self)

lemma to_size_t_id: "0 \<le> x \<Longrightarrow> x < 2 ^ 64 \<Longrightarrow> to_size_t x = x"
  by (simp add: to_size_t_def take_bit_int_eq_self)

lemma to_size_t_add: "to_size_t (a + to_size_t b) = to_size_t (a + b)"
  by (simp add: to_size_t_def take_bit_eq_mod mod_add_right_eq)

subsection \<open>Index fixing\<close>

lemma Tree_fix_index_long:
  assumes n: "length tree < 2 ^ 31"
  shows "Tree_fix_index tree (PyInt i) =
     (if i < LONG_MIN \<or> LONG_MAX < i then Inl OverflowError
      else if i < - int (length tree) \<or> int (length tree) \<le> i then Inl (IndexError (PyInt i))
      else if i < 0 then Inr (i + int (length tree))
      else Inr i)"
proof -
  let ?n = "int (length tree)"
  have n31: "?n < 2 ^ 31" using n by (simp flip: of_nat_less_iff)
  have len: "to_size_t ?n = ?n" using n31 by (intro to_size_t_id) simp_all
  have slen: "to_long ?n = ?n" using n31 by (intro to_long_id) simp_all
  have neg: "to_long (- ?n) = - ?n" using n31 by (intro to_long_id) simp_all
  show ?thesis
  proof (cases "i < LONG_MIN \<or> LONG_MAX < i")
    case True
    then show ?thesis
      by (auto simp: Tree_fix_index_def long_of_int_def)
  next
    case range: False
    show ?thesis
    proof (cases "i < - ?n \<or> ?n \<le> i")
      case True
      then show ?thesis using range
        by (auto simp: Tree_fix_index_def long_of_int_def git_tree_entrycount_def len slen neg
            Let_def)
    next
      case False
      then have lo: "- ?n \<le> i" and hi: "i < ?n" by simp_all
      show ?thesis
      proof (cases "i < 0")
        case True
        have sum: "0 \<le> ?n + i" "?n + i < 2 ^ 31" using lo True n31 by simp_all
        have "to_long (to_size_t (?n + to_size_t i)) = ?n + i"
          using sum by (simp add: to_size_t_add to_size_t_id to_long_id)
        moreover have "to_int (?n + i) = ?n + i" using sum by (intro to_int_id) simp_all
        ultimately show ?thesis using range False True
          by (simp add: Tree_fix_index_def long_of_int_def git_tree_entrycount_def len slen neg
              Let_def add.commute)
      next
        case pos: False
        have "to_int i = i" using pos hi n31 by (intro to_int_id) simp_all
        then show ?thesis using range False pos
          by (simp add: Tree_fix_index_def long_of_int_def git_tree_entrycount_def len slen neg
              Let_def)
      qed
    qed
  qed
qed

lemma byindex_in_range:
  assumes j: "0 \<le> j" "j < int (length tree)" and n: "length tree < 2 ^ 31"
  shows "git_tree_entry_byindex tree (nat (to_size_t j)) = Some (tree ! nat j)"
proof -
  have "int (length tree) < 2 ^ 31" using n by (simp flip: of_nat_less_iff)
  then have "to_size_t j = j" using j by (intro to_size_t_id) simp_all
  then show ?thesis using j by (simp add: git_tree_entry_byindex_def nat_less_iff)
qed

lemma wrap_Block:
  "or_MemoryError (wrap_tree_entry (Block stale) (t_tree T ! i) (t_repo T)) = Inr (handed_out stale T i)"
  by (simp add: or_MemoryError_def wrap_tree_entry_def handed_out_def)

lemma length_entries_of: "length (entries_of stale T) = length (t_tree T)"
  by (simp add: entries_of_def)

lemma nth_entries_of:
  "i < length (t_tree T) \<Longrightarrow> entries_of stale T ! i = handed_out (stale i) T i"
  by (simp add: entries_of_def)

lemma get_by_index_value:
  assumes n: "length (t_tree T) < 2 ^ 31"
  shows "tree_getitem_by_index True (Block s) (t_tree T) (t_repo T) (PyInt i) =
     (if i < LONG_MIN \<or> LONG_MAX < i then Inl OverflowError
      else if i < - Tree_len T \<or> Tree_len T \<le> i then Inl (IndexError (PyInt i))
      else if i < 0 then Inr (entries_of (\<lambda>_. s) T ! nat (i + Tree_len T))
      else Inr (entries_of (\<lambda>_. s) T ! nat i))"
proof -
  let ?n = "int (length (t_tree T))"
  have L: "Tree_len T = ?n" by (simp add: Tree_len_def git_tree_entrycount_def)
  note fixed = Tree_fix_index_long [OF n, of i]
  show ?thesis
  proof (cases "(i < LONG_MIN \<or> LONG_MAX < i) \<or> (i < - ?n \<or> ?n \<le> i)")
    case True
    then show ?thesis
      by (auto simp: tree_getitem_by_index_def fixed L)
  next
    case False
    then have range: "\<not> (i < LONG_MIN \<or> LONG_MAX < i)" and lo: "- ?n \<le> i" and hi: "i < ?n"
      by simp_all
    show ?thesis
    proof (cases "i < 0")
      case True
      have j: "0 \<le> i + ?n" "i + ?n < ?n" using lo True by simp_all
      have "nat (i + ?n) < length (t_tree T)" using j by simp
      then have "entries_of (\<lambda>_. s) T ! nat (i + ?n) = handed_out s T (nat (i + ?n))"
        by (rule nth_entries_of)
      then show ?thesis using range lo hi True
        by (simp add: tree_getitem_by_index_def fixed L byindex_in_range [OF j n]
            git_tree_entry_dup_def wrap_Block)
    next
      case pos: False
      then have j: "0 \<le> i" by simp
      have "nat i < length (t_tree T)" using j hi by simp
      then have "entries_of (\<lambda>_. s) T ! nat i = handed_out s T (nat i)"
        by (rule nth_entries_of)
      then show ?thesis using range lo hi pos
        by (simp add: tree_getitem_by_index_def fixed L byindex_in_range [OF j hi n]
            git_tree_entry_dup_def wrap_Block)
    qed
  qed
qed

subsection \<open>The subscript and the division of a Tree\<close>

lemma Tree_getitem_PyInt:
  "Tree_getitem g mem py_entry T (PyInt i) =
     tree_getitem_by_index mem py_entry (t_tree T) (t_repo T) (PyInt i)"
  by (simp add: Tree_getitem_def)

lemma Tree_getitem_path:
  "\<not> PyInt_Check p \<Longrightarrow>
   Tree_getitem g mem py_entry T p = tree_getitem_by_path g py_entry (t_tree T) (t_repo T) p"
  by (simp add: Tree_getitem_def)

lemma Tree_truediv_path:
  "Tree_truediv g py_entry T p = tree_getitem_by_path g py_entry (t_tree T) (t_repo T) p"
  by (simp add: Tree_truediv_def)

subsection \<open>The entries handed out\<close>

lemma entries_of_repository:
  "t_repo T = Some r \<Longrightarrow>
   entries_of stale T = map (\<lambda>e. \<lparr>te_entry = e, te_repo = Some r\<rparr>) (t_tree T)"
  by (rule nth_equalityI) (simp_all add: entries_of_def handed_out_def)

lemma te_entry_entries_of: "map te_entry (entries_of stale T) = t_tree T"
  by (rule nth_equalityI) (simp_all add: entries_of_def handed_out_def)

lemma drop_entries_of:
  "i < length (t_tree T) \<Longrightarrow>
   drop i (entries_of stale T) = handed_out (stale i) T i # drop (Suc i) (entries_of stale T)"
  using Cons_nth_drop_Suc [of i "entries_of stale T"]
  by (simp add: length_entries_of nth_entries_of)

lemma sorted_entries_of:
  assumes "sorted_wrt (\<lambda>a b. git_tree_entry_cmp g a b < 0) (t_tree T)"
  shows "sorted_wrt (\<lambda>a b. git_tree_entry_cmp g (te_entry a) (te_entry b) < 0)
           (entries_of stale T)"
proof -
  have "sorted_wrt (\<lambda>a b. git_tree_entry_cmp g a b < 0) (map te_entry (entries_of stale T))"
    using assms by (simp add: te_entry_entries_of)
  then show ?thesis by (simp add: sorted_wrt_map)
qed

subsection \<open>One step of an iterator\<close>

lemma iternext_at:
  "i < length (t_tree T) \<Longrightarrow>
   TreeIter_iternext True (Block stale) \<lparr>it_owner = T, it_i = i\<rparr> =
     (Inr (Some (handed_out stale T i)), \<lparr>it_owner = T, it_i = Suc i\<rparr>)"
  by (simp add: TreeIter_iternext_def git_tree_entry_byindex_def git_tree_entry_dup_def
      wrap_tree_entry_def handed_out_def)

lemma iternext_end:
  "length (t_tree (it_owner it)) \<le> it_i it \<Longrightarrow>
   TreeIter_iternext mem py_entry it = (Inr None, it)"
  by (simp add: TreeIter_iternext_def git_tree_entry_byindex_def)

lemma iternext_end_iff:
  "fst (TreeIter_iternext mem py_entry it) = Inr None \<longleftrightarrow>
     length (t_tree (it_owner it)) \<le> it_i it"
  by (auto simp: TreeIter_iternext_def git_tree_entry_byindex_def git_tree_entry_dup_def Let_def
      split: option.splits)

lemma iternext_cursor:
  "it_i (snd (TreeIter_iternext mem py_entry it)) =
     (if it_i it < length (t_tree (it_owner it)) then it_i it + 1 else it_i it)"
  by (simp add: TreeIter_iternext_def git_tree_entry_byindex_def git_tree_entry_dup_def Let_def
      split: prod.splits option.splits)

lemma iternext_owner: "it_owner (snd (TreeIter_iternext mem py_entry it)) = it_owner it"
  by (simp add: TreeIter_iternext_def git_tree_entry_byindex_def git_tree_entry_dup_def Let_def
      split: prod.splits option.splits)

lemma nexts_end:
  "length (t_tree (it_owner it)) \<le> it_i it \<Longrightarrow>
   nexts mems it = (replicate (length mems) (Inr None), it)"
  by (induction mems) (auto simp: iternext_end)

subsection \<open>Whole iterations\<close>

lemma py_list_from:
  "py_list (\<lambda>i. (True, Block (stale i))) \<lparr>it_owner = T, it_i = i\<rparr>
     = Inr (drop i (entries_of stale T))"
proof (induction "length (t_tree T) - i" arbitrary: i)
  case 0
  then have le: "length (t_tree T) \<le> i" by simp
  show ?case
    by (subst py_list.simps) (simp add: iternext_end length_entries_of le)
next
  case (Suc n)
  then have lt: "i < length (t_tree T)" and n: "n = length (t_tree T) - Suc i" by simp_all
  show ?case
    using Suc.hyps(1) [OF n]
    by (subst py_list.simps) (simp add: iternext_at [OF lt] drop_entries_of [OF lt])
qed

lemma interleave_from:
  "interleave sched (stale1, stale2) (\<lparr>it_owner = T, it_i = i\<rparr>, \<lparr>it_owner = T, it_i = j\<rparr>) =
     (take (length (filter id sched)) (drop i (entries_of stale1 T)),
      take (length (filter Not sched)) (drop j (entries_of stale2 T)))"
proof (induction sched arbitrary: i j)
  case Nil
  show ?case by simp
next
  case (Cons first sched)
  show ?case
  proof (cases first)
    case True
    show ?thesis
    proof (cases "i < length (t_tree T)")
      case lt: True
      show ?thesis
        using True by (simp add: iternext_at [OF lt] Cons.IH drop_entries_of [OF lt])
    next
      case False
      then have le: "length (t_tree T) \<le> i" by simp
      show ?thesis
        using True le by (simp add: iternext_end Cons.IH length_entries_of)
    qed
  next
    case False
    show ?thesis
    proof (cases "j < length (t_tree T)")
      case lt: True
      show ?thesis
        using False by (simp add: iternext_at [OF lt] Cons.IH drop_entries_of [OF lt])
    next
      case ge: False
      then have le: "length (t_tree T) \<le> j" by simp
      show ?thesis
        using False le by (simp add: iternext_end Cons.IH length_entries_of)
    qed
  qed
qed

subsection \<open>The comparison, operator by operator\<close>

lemma richcompare_TreeEntry:
  "TreeEntry_richcompare g a (PyTreeEntry b) op =
     (let cmp = (if git_tree_entry_cmp g (te_entry a) (te_entry b) = 0
                 then git_oid_cmp g (git_tree_entry_id (te_entry a)) (git_tree_entry_id (te_entry b))
                 else git_tree_entry_cmp g (te_entry a) (te_entry b))
      in if op = Py_LT then Inr (py_bool (cmp \<le> 0))
         else if op = Py_LE then Inr (py_bool (cmp < 0))
         else if op = Py_EQ then Inr (py_bool (cmp = 0))
         else if op = Py_NE then Inr (py_bool (cmp \<noteq> 0))
         else if op = Py_GT then Inr (py_bool (cmp > 0))
         else if op = Py_GE then Inr (py_bool (cmp \<ge> 0))
         else Inl (RuntimeError_op op))"
  by (simp add: Let_def compare_ids_def py_bool_def)

lemma compare_cases:
  "compare g a b =
     ordering_of (if git_tree_entry_cmp g (te_entry a) (te_entry b) = 0
                 then git_oid_cmp g (git_tree_entry_id (te_entry a)) (git_tree_entry_id (te_entry b))
                 else git_tree_entry_cmp g (te_entry a) (te_entry b))"
  by (simp add: compare_def ordering_of_def)

text \<open>
  Four of the six operators are the two-level comparison read in the standard way.
\<close>

lemma richcompare_agrees:
  "op = Py_EQ \<or> op = Py_NE \<or> op = Py_GT \<or> op = Py_GE \<Longrightarrow>
   TreeEntry_richcompare g a (PyTreeEntry b) op = Inr (py_bool (operator_holds op (compare g a b)))"
  unfolding richcompare_TreeEntry compare_cases
  by (auto simp: Let_def operator_holds_def ordering_of_def Py_LT_def Py_LE_def Py_EQ_def
      Py_NE_def Py_GT_def Py_GE_def py_bool_def)

text \<open>
  The other two have changed places: \<^verbatim>\<open>a < b\<close> answers what \<^verbatim>\<open>a <= b\<close> should, and
  \<^verbatim>\<open>a <= b\<close> what \<^verbatim>\<open>a < b\<close> should.
\<close>

lemma richcompare_LT_is_le:
  "TreeEntry_richcompare g a (PyTreeEntry b) Py_LT =
     Inr (py_bool (operator_holds Py_LE (compare g a b)))"
  unfolding richcompare_TreeEntry compare_cases
  by (auto simp: Let_def operator_holds_def ordering_of_def Py_LT_def Py_LE_def py_bool_def)

lemma richcompare_LE_is_lt:
  "TreeEntry_richcompare g a (PyTreeEntry b) Py_LE =
     Inr (py_bool (operator_holds Py_LT (compare g a b)))"
  unfolding richcompare_TreeEntry compare_cases
  by (auto simp: Let_def operator_holds_def ordering_of_def Py_LT_def Py_LE_def py_bool_def)

subsection \<open>The example library, evaluated\<close>

lemma example_bypath:
  "git_tree_entry_bypath (example_git store) root path =
     bypath_segments store root (split_path path)"
  by (simp add: example_git_def)

lemma example_path: "py_path_to_c_str (example_git store) = path_of_py"
  by (simp add: example_git_def)

lemma engine_diff_example:
  "engine_diff (example_git store) py_repo from to opts =
     Inr (PyDiff (10 * (case from of None \<Rightarrow> 0 | Some t \<Rightarrow> length t)
                  + (case to of None \<Rightarrow> 0 | Some t \<Rightarrow> length t)) py_repo)"
  by (simp add: engine_diff_def example_git_def wrap_diff_def)

subsection \<open>What the tests of an entry and of an index let through\<close>

text \<open>
  A TreeEntry whose field \<^verbatim>\<open>repo\<close> is \<^verbatim>\<open>NULL\<close> is refused by every operation that resolves
  it, after the test of its kind.
\<close>

lemma entry_resolution_errors:
  "(git_tree_entry_type (te_entry e) \<noteq> GIT_OBJ_TREE \<longrightarrow>
      treeentry_to_subtree g e = Inl (TypeError ''Only for trees'')
      \<and> TreeEntry_tree_get g e = Inl (TypeError ''Only for trees''))
   \<and> (git_tree_entry_type (te_entry e) \<noteq> GIT_OBJ_BLOB \<longrightarrow>
      TreeEntry_blob_get g e = Inl (TypeError ''Only for blobs''))
   \<and> (git_tree_entry_type (te_entry e) = GIT_OBJ_TREE \<and> te_repo e = None \<longrightarrow>
      treeentry_to_subtree g e = Inl (ValueError ''No repository associated with this TreeEntry'')
      \<and> TreeEntry_tree_get g e = Inl (ValueError ''No repository associated with this TreeEntry'')
      \<and> TreeEntry_contains g e p
          = Inl (ValueError ''No repository associated with this TreeEntry'')
      \<and> TreeEntry_getitem g mem py_entry e p
          = Inl (ValueError ''No repository associated with this TreeEntry'')
      \<and> TreeEntry_truediv g py_entry e p
          = Inl (ValueError ''No repository associated with this TreeEntry''))
   \<and> (git_tree_entry_type (te_entry e) = GIT_OBJ_BLOB \<and> te_repo e = None \<longrightarrow>
      TreeEntry_blob_get g e = Inl (ValueError ''No repository associated with this TreeEntry''))"
  by (simp add: treeentry_to_subtree_def TreeEntry_tree_get_def TreeEntry_blob_get_def
      treeentry_to_object_def TreeEntry_contains_def TreeEntry_getitem_def TreeEntry_truediv_def)

text \<open>
  The entry made for a Tree without repository has in its field \<^verbatim>\<open>repo\<close> what the block
  had: \<^verbatim>\<open>NULL\<close> only if the block happened to hold \<^verbatim>\<open>NULL\<close>.
\<close>

lemma wrap_without_repository:
  "wrap_tree_entry (Block stale) entry None = Some \<lparr>te_entry = entry, te_repo = stale\<rparr>"
  by (simp add: wrap_tree_entry_def)

text \<open>
  What \<^verbatim>\<open>Tree_diff_to_index\<close> tests of the value it is given: the attribute \<^verbatim>\<open>_index\<close>, the
  attribute \<^verbatim>\<open>_pointer\<close>, and that the latter is a bytes object of the size of a pointer.
\<close>

lemma diff_to_index_checks:
  "(PyObject_GetAttrString py_idx ''_index'' = None \<longrightarrow>
      Tree_diff_to_index g self (Inr (py_idx, opts))
        = Inl (TypeError ''argument must be an Index''))
   \<and> (PyObject_GetAttrString py_idx ''_index'' \<noteq> None
        \<and> PyObject_GetAttrString py_idx ''_pointer'' = None \<longrightarrow>
      Tree_diff_to_index g self (Inr (py_idx, opts)) = Inl (AttributeError ''_pointer''))
   \<and> (\<forall>v. PyObject_GetAttrString py_idx ''_index'' \<noteq> None
        \<and> PyObject_GetAttrString py_idx ''_pointer'' = Some v
        \<and> (PyBytes_AsStringAndSize v = Inl (TypeError ''expected bytes'')
           \<or> (\<exists>buffer. v = PyBytes buffer \<and> length buffer \<noteq> 8)) \<longrightarrow>
      (\<exists>msg. Tree_diff_to_index g self (Inr (py_idx, opts)) = Inl (TypeError msg)))
   \<and> (\<forall>buffer py_repo. PyObject_GetAttrString py_idx ''_index'' \<noteq> None
        \<and> PyObject_GetAttrString py_idx ''_pointer'' = Some (PyBytes buffer)
        \<and> length buffer = 8 \<and> t_repo self = Some py_repo \<longrightarrow>
      Tree_diff_to_index g self (Inr (py_idx, opts)) =
        (let (err, diff) = git_diff_tree_to_index g (r_repo py_repo) (t_tree self) buffer opts
         in if err < 0 then Inl (Error_set err) else Inr (wrap_diff diff py_repo)))"
  by (auto simp: Tree_diff_to_index_def Let_def split: option.splits sum.splits)

section \<open>The claims\<close>

subsection \<open>C1: the six comparison operators\<close>

text \<open>
  Claim C1: the comparison of two TreeEntries is the two-level comparison (the canonical
  comparator, then the ids), and \<^verbatim>\<open>a < b\<close> holds iff its result is LT, \<^verbatim>\<open>a <= b\<close> iff it is
  LT or EQ. The code does otherwise for these two operators: an entry compared with
  itself has the two-level result EQ, and yet \<^verbatim>\<open>TreeEntry_richcompare\<close> answers \<^verbatim>\<open>True\<close> for
  \<^verbatim>\<open><\<close> and \<^verbatim>\<open>False\<close> for \<^verbatim>\<open><=\<close>, since the case \<^verbatim>\<open>Py_LT\<close> tests \<^verbatim>\<open>cmp <= 0\<close> and the case
  \<^verbatim>\<open>Py_LE\<close> tests \<^verbatim>\<open>cmp < 0\<close>. The cases \<^verbatim>\<open>Py_GT\<close> and \<^verbatim>\<open>Py_GE\<close> of the same switch are the
  standard ones, so that \<^verbatim>\<open>a < a\<close> and \<^verbatim>\<open>a >= a\<close> both hold.
\<close>

theorem richcompare_equal_entries:
  "compare (example_git the_store) (entry_of a_txt) (entry_of a_txt) = EQ
   \<and> TreeEntry_richcompare (example_git the_store) (entry_of a_txt)
         (PyTreeEntry (entry_of a_txt)) Py_LT = Inr Py_True
   \<and> TreeEntry_richcompare (example_git the_store) (entry_of a_txt)
         (PyTreeEntry (entry_of a_txt)) Py_LE = Inr Py_False
   \<and> TreeEntry_richcompare (example_git the_store) (entry_of a_txt)
         (PyTreeEntry (entry_of a_txt)) Py_GE = Inr Py_True"
  by (simp add: compare_def ordering_of_def example_git_def entry_of_def a_txt_def
      sort_key_def compare_ids_def Py_LT_def Py_LE_def Py_EQ_def Py_NE_def Py_GT_def Py_GE_def)

subsection \<open>C2: a diff of a Tree without a repository\<close>

text \<open>
  Claim C2: for a Tree whose repository is absent, each of the three diff operations
  fails with a NoContext error and hands nothing to the engine. The code has no such
  test: in all three, \<^verbatim>\<open>py_repo = self->repo\<close> is followed by the read \<^verbatim>\<open>py_repo->repo\<close>, so
  that for every library, every Tree and all options the call ends in a read through
  \<^verbatim>\<open>NULL\<close>, which is no Python error. (\<^verbatim>\<open>diff_to_index\<close> gets that far with an index.)
\<close>

theorem diff_without_repository:
  "Tree_diff_to_workdir g (T\<lparr>t_repo := None\<rparr>) (Inr opts) = Inl NULL_dereference
   \<and> Tree_diff_to_tree g (T\<lparr>t_repo := None\<rparr>) (Inr (other, opts, swap)) = Inl NULL_dereference
   \<and> Tree_diff_to_index g (T\<lparr>t_repo := None\<rparr>)
        (Inr (PyInstance ''Index'' [(''_index'', Py_None), (''_pointer'', PyBytes ''01234567'')],
              opts))
       = Inl NULL_dereference"
  by (simp add: Tree_diff_to_workdir_def Tree_diff_to_tree_def Tree_diff_to_index_def Let_def
      split: prod.splits)

subsection \<open>C3: lookup by position\<close>

text \<open>
  Claim C3, amended: for every Tree \<open>T\<close> of fewer than \<open>2^31\<close> entries and every integer
  \<open>i\<close>, when the copy of the entry and the object for it can be allocated,
  \<^verbatim>\<open>get_by_index(i)\<close> fails with \<^verbatim>\<open>OverflowError\<close> when \<open>i\<close> does not fit a C \<^verbatim>\<open>long\<close>; otherwise
  it fails with \<^verbatim>\<open>IndexError\<close> carrying \<open>i\<close> when \<open>i < -len(T)\<close> or \<open>i \<ge> len(T)\<close>, returns
  the entry at position \<open>i + len(T)\<close> when \<open>-len(T) \<le> i < 0\<close>, and returns the entry at
  position \<open>i\<close> when \<open>0 \<le> i < len(T)\<close>; so \<^verbatim>\<open>get_by_index(i)\<close> and
  \<^verbatim>\<open>get_by_index(i + len(T))\<close> agree for a negative \<open>i\<close> in range. This holds whatever the
  fresh block held in its field \<^verbatim>\<open>repo\<close>.
\<close>

theorem get_by_index_long:
  assumes n: "length (t_tree T) < 2 ^ 31"
  shows "tree_getitem_by_index True (Block s) (t_tree T) (t_repo T) (PyInt i) =
           (if i < LONG_MIN \<or> LONG_MAX < i then Inl OverflowError
            else if i < - Tree_len T \<or> Tree_len T \<le> i then Inl (IndexError (PyInt i))
            else if i < 0 then Inr (entries_of (\<lambda>_. s) T ! nat (i + Tree_len T))
            else Inr (entries_of (\<lambda>_. s) T ! nat i))
         \<and> (- Tree_len T \<le> i \<and> i < 0 \<longrightarrow>
              tree_getitem_by_index True (Block s) (t_tree T) (t_repo T) (PyInt i) =
              tree_getitem_by_index True (Block s) (t_tree T) (t_repo T) (PyInt (i + Tree_len T)))"
proof -
  have L: "Tree_len T < 2 ^ 31"
    using n by (simp add: Tree_len_def git_tree_entrycount_def flip: of_nat_less_iff)
  have L0: "0 \<le> Tree_len T"
    by (simp add: Tree_len_def)
  have "tree_getitem_by_index True (Block s) (t_tree T) (t_repo T) (PyInt i) =
        tree_getitem_by_index True (Block s) (t_tree T) (t_repo T) (PyInt (i + Tree_len T))"
    if "- Tree_len T \<le> i" "i < 0"
    using that L L0
    by (simp add: get_by_index_value [OF n] LONG_MIN_def LONG_MAX_def)
  then show ?thesis
    using get_by_index_value [OF n, of s i] by blast
qed

text \<open>
  On the tree of the scenario, with three entries: positions \<open>0\<close> and \<open>-1\<close>, the two
  nearest positions out of range, and \<open>2^63\<close>.
\<close>

theorem get_by_index_long_witness:
  "length (t_tree the_tree) < 2 ^ 31
   \<and> tree_getitem_by_index True (Block None) (t_tree the_tree) (t_repo the_tree) (PyInt 0)
       = Inr (entry_of a_txt)
   \<and> tree_getitem_by_index True (Block None) (t_tree the_tree) (t_repo the_tree) (PyInt (- 1))
       = Inr (entry_of lost_dir)
   \<and> tree_getitem_by_index True (Block None) (t_tree the_tree) (t_repo the_tree) (PyInt (- 1))
       = tree_getitem_by_index True (Block None) (t_tree the_tree) (t_repo the_tree) (PyInt 2)
   \<and> tree_getitem_by_index True (Block None) (t_tree the_tree) (t_repo the_tree) (PyInt 3)
       = Inl (IndexError (PyInt 3))
   \<and> tree_getitem_by_index True (Block None) (t_tree the_tree) (t_repo the_tree) (PyInt (- 4))
       = Inl (IndexError (PyInt (- 4)))
   \<and> tree_getitem_by_index True (Block None) (t_tree the_tree) (t_repo the_tree)
        (PyInt (2 ^ 63))
       = Inl OverflowError"
proof -
  have n: "length (t_tree the_tree) < 2 ^ 31" by (simp add: the_tree_def)
  show ?thesis
    using n get_by_index_long [OF n, of None 0] get_by_index_long [OF n, of None "- 1"]
      get_by_index_long [OF n, of None 2]
      get_by_index_long [OF n, of None 3] get_by_index_long [OF n, of None "- 4"]
      get_by_index_long [OF n, of None "2 ^ 63"]
    by (simp add: the_tree_def entries_of_def handed_out_def entry_of_def Tree_len_def
        git_tree_entrycount_def LONG_MIN_def LONG_MAX_def)
qed

text \<open>
  The claim as it was written fails at \<open>i = 2^63\<close>, which is no less than the length of
  the tree: the lookup raises \<^verbatim>\<open>OverflowError\<close>, not \<^verbatim>\<open>IndexError\<close>.
\<close>

theorem get_by_index_beyond_long:
  "Tree_len the_tree \<le> 2 ^ 63
   \<and> tree_getitem_by_index True (Block None) (t_tree the_tree) (t_repo the_tree)
        (PyInt (2 ^ 63))
       = Inl OverflowError
   \<and> tree_getitem_by_index True (Block None) (t_tree the_tree) (t_repo the_tree)
        (PyInt (2 ^ 63))
       \<noteq> Inl (IndexError (PyInt (2 ^ 63)))"
  by (simp add: tree_getitem_by_index_def Tree_fix_index_def long_of_int_def LONG_MIN_def
      LONG_MAX_def Tree_len_def git_tree_entrycount_def the_tree_def)

subsection \<open>C4: iteration\<close>

text \<open>
  Claim C4: iterating a Tree \<open>T\<close> through \<^verbatim>\<open>iter()\<close> yields exactly \<open>len(T)\<close> entries, those
  of the entry sequence of \<open>T\<close> in its order (so in the order of the canonical comparator
  when the sequence is in that order), each with the repository of \<open>T\<close> when \<open>T\<close> has
  one, and ends with end-of-sequence, not with an error; a step leaves the Tree of the
  iterator as it is, and two iterators over the same \<open>T\<close>, asked in any order, each yield
  the entries from the first on, as many as they were asked for. Memory for the copies
  and the objects is at hand, and the fresh blocks may hold anything.
\<close>

theorem Tree_iter_yields_entries:
  "py_list (\<lambda>i. (True, Block (stale i))) (Tree_iter T) = Inr (entries_of stale T)
   \<and> int (length (entries_of stale T)) = Tree_len T
   \<and> map te_entry (entries_of stale T) = t_tree T
   \<and> (t_repo T = Some r \<longrightarrow>
        entries_of stale T = map (\<lambda>e. \<lparr>te_entry = e, te_repo = Some r\<rparr>) (t_tree T))
   \<and> (sorted_wrt (\<lambda>a b. git_tree_entry_cmp g a b < 0) (t_tree T) \<longrightarrow>
        sorted_wrt (\<lambda>a b. git_tree_entry_cmp g (te_entry a) (te_entry b) < 0)
          (entries_of stale T))
   \<and> fst (TreeIter_iternext mem py_entry \<lparr>it_owner = T, it_i = length (t_tree T)\<rparr>) = Inr None
   \<and> it_owner (snd (TreeIter_iternext mem py_entry \<lparr>it_owner = T, it_i = i\<rparr>)) = T
   \<and> interleave sched (stale, stale') (Tree_iter T, Tree_iter T) =
        (take (length (filter id sched)) (entries_of stale T),
         take (length (filter Not sched)) (entries_of stale' T))"
proof -
  have "py_list (\<lambda>i. (True, Block (stale i))) (Tree_iter T) = Inr (entries_of stale T)"
    using py_list_from [of stale T 0] by (simp add: Tree_iter_def)
  moreover have "int (length (entries_of stale T)) = Tree_len T"
    by (simp add: length_entries_of Tree_len_def git_tree_entrycount_def)
  moreover have "map te_entry (entries_of stale T) = t_tree T"
    by (rule te_entry_entries_of)
  moreover have "fst (TreeIter_iternext mem py_entry \<lparr>it_owner = T, it_i = length (t_tree T)\<rparr>)
      = Inr None"
    by (simp add: iternext_end)
  moreover have "it_owner (snd (TreeIter_iternext mem py_entry \<lparr>it_owner = T, it_i = i\<rparr>)) = T"
    by (simp add: iternext_owner)
  moreover have "interleave sched (stale, stale') (Tree_iter T, Tree_iter T) =
        (take (length (filter id sched)) (entries_of stale T),
         take (length (filter Not sched)) (entries_of stale' T))"
    using interleave_from [of sched stale stale' T 0 0] by (simp add: Tree_iter_def)
  ultimately show ?thesis
    using sorted_entries_of [of g T stale] entries_of_repository [of T r stale] by blast
qed

theorem Tree_iter_yields_entries_witness:
  "py_list (\<lambda>i. (True, Block None)) (Tree_iter the_tree)
     = Inr [entry_of a_txt, entry_of b_dir, entry_of lost_dir]
   \<and> Tree_len the_tree = 3
   \<and> t_repo the_tree = Some the_repo
   \<and> sorted_wrt (\<lambda>a b. git_tree_entry_cmp (example_git the_store) a b < 0) (t_tree the_tree)
   \<and> sorted_wrt (\<lambda>a b. git_tree_entry_cmp (example_git the_store) (te_entry a) (te_entry b) < 0)
        (entries_of (\<lambda>i. None) the_tree)
   \<and> interleave [True, False, False, True, False, False, False] (\<lambda>i. None, \<lambda>i. Some the_repo)
        (Tree_iter the_tree, Tree_iter the_tree)
     = ([entry_of a_txt, entry_of b_dir], [entry_of a_txt, entry_of b_dir, entry_of lost_dir])"
proof -
  have s: "sorted_wrt (\<lambda>a b. git_tree_entry_cmp (example_git the_store) a b < 0) (t_tree the_tree)"
    by (simp add: the_tree_def example_git_def sort_key_def a_txt_def b_dir_def lost_dir_def)
  have r: "t_repo the_tree = Some the_repo"
    by (simp add: the_tree_def)
  have e: "map (\<lambda>e. \<lparr>te_entry = e, te_repo = Some the_repo\<rparr>) (t_tree the_tree)
      = [entry_of a_txt, entry_of b_dir, entry_of lost_dir]"
    by (simp add: the_tree_def entry_of_def)
  have e': "entries_of (\<lambda>i. Some the_repo) the_tree
      = [entry_of a_txt, entry_of b_dir, entry_of lost_dir]"
    using entries_of_repository [OF r] e by simp
  have e0: "entries_of (\<lambda>i. None) the_tree
      = [entry_of a_txt, entry_of b_dir, entry_of lost_dir]"
    using entries_of_repository [OF r] e by simp
  note t = Tree_iter_yields_entries [of "\<lambda>i. None" the_tree the_repo "example_git the_store"
      True "Block None" 0 "[True, False, False, True, False, False, False]" "\<lambda>i. Some the_repo"]
  from t have 1: "py_list (\<lambda>i. (True, Block None)) (Tree_iter the_tree)
      = Inr (entries_of (\<lambda>i. None) the_tree)"
    by blast
  from t have 2: "int (length (entries_of (\<lambda>i. None) the_tree)) = Tree_len the_tree"
    by blast
  from t s have 3: "sorted_wrt
      (\<lambda>a b. git_tree_entry_cmp (example_git the_store) (te_entry a) (te_entry b) < 0)
      (entries_of (\<lambda>i. None) the_tree)"
    by blast
  from t have 4: "interleave [True, False, False, True, False, False, False]
      (\<lambda>i. None, \<lambda>i. Some the_repo) (Tree_iter the_tree, Tree_iter the_tree)
    = (take (length (filter id [True, False, False, True, False, False, False]))
         (entries_of (\<lambda>i. None) the_tree),
       take (length (filter Not [True, False, False, True, False, False, False]))
         (entries_of (\<lambda>i. Some the_repo) the_tree))"
    by blast
  have 5: "Tree_len the_tree = 3"
    using 2 by (simp add: e0)
  show ?thesis
    unfolding 1 4 5 using 3 s r by (simp add: e0 e')
qed

subsection \<open>C5: containment and lookup by path\<close>

text \<open>
  Claim C5, amended: for every Tree \<open>T\<close> and path \<open>p\<close>, \<^verbatim>\<open>T.contains(p)\<close> is true if and
  only if \<^verbatim>\<open>T.get_by_path(p)\<close> succeeds, given memory for the object it returns (without
  it \<^verbatim>\<open>get_by_path\<close> fails with \<^verbatim>\<open>MemoryError\<close> where \<^verbatim>\<open>contains\<close> is true); when the store
  reports the path as not found, \<^verbatim>\<open>get_by_path\<close> fails with \<^verbatim>\<open>KeyError\<close> keyed on the path
  argument and \<^verbatim>\<open>contains\<close> returns false; any other error of the store is raised alike by
  both; and when the path conversion rejects \<open>p\<close>, both fail before the store is asked,
  \<^verbatim>\<open>contains\<close> with the error the conversion raised and \<^verbatim>\<open>get_by_path\<close> with the \<^verbatim>\<open>TypeError\<close>
  ``Value must be a path string'', which it puts in its place.
\<close>

theorem contains_and_get_by_path:
  "((Tree_contains g T p = Inr True) \<longleftrightarrow>
      (\<exists>e. tree_getitem_by_path g (Block stale) (t_tree T) (t_repo T) p = Inr e))
   \<and> (Tree_contains g T p = Inr True \<longrightarrow>
        tree_getitem_by_path g No_memory (t_tree T) (t_repo T) p = Inl MemoryError)
   \<and> (\<forall>path. py_path_to_c_str g p = Inr path
          \<and> fst (git_tree_entry_bypath g (t_tree T) path) = GIT_ENOTFOUND \<longrightarrow>
        tree_getitem_by_path g py_entry (t_tree T) (t_repo T) p = Inl (KeyError p)
        \<and> Tree_contains g T p = Inr False)
   \<and> (\<forall>path err. py_path_to_c_str g p = Inr path
          \<and> fst (git_tree_entry_bypath g (t_tree T) path) = err
          \<and> err < 0 \<and> err \<noteq> GIT_ENOTFOUND \<longrightarrow>
        tree_getitem_by_path g py_entry (t_tree T) (t_repo T) p = Inl (Error_set err)
        \<and> Tree_contains g T p = Inl (Error_set err))
   \<and> (\<forall>e. py_path_to_c_str g p = Inl e \<longrightarrow>
        tree_getitem_by_path g py_entry (t_tree T) (t_repo T) p
          = Inl (TypeError ''Value must be a path string'')
        \<and> Tree_contains g T p = Inl e)"
  by (auto simp: Tree_contains_def tree_getitem_by_path_def Let_def wrap_tree_entry_def
      or_MemoryError_def split: sum.splits prod.splits if_splits)

text \<open>
  On the tree of the scenario: a path that is there, one whose last segment is missing,
  one that runs into a subtree the store cannot find, and a key that is no path.
\<close>

theorem contains_and_get_by_path_witness:
  "Tree_contains (example_git the_store) the_tree (PyBytes ''b/c.txt'') = Inr True
   \<and> tree_getitem_by_path (example_git the_store) (Block None) (t_tree the_tree)
        (t_repo the_tree) (PyBytes ''b/c.txt'') = Inr (entry_of c_txt)
   \<and> tree_getitem_by_path (example_git the_store) No_memory (t_tree the_tree)
        (t_repo the_tree) (PyBytes ''b/c.txt'') = Inl MemoryError
   \<and> tree_getitem_by_path (example_git the_store) (Block None) (t_tree the_tree)
        (t_repo the_tree) (PyBytes ''b/missing'') = Inl (KeyError (PyBytes ''b/missing''))
   \<and> Tree_contains (example_git the_store) the_tree (PyBytes ''b/missing'') = Inr False
   \<and> tree_getitem_by_path (example_git the_store) (Block None) (t_tree the_tree)
        (t_repo the_tree) (PyBytes ''lost/x'') = Inl (Error_set (- 1))
   \<and> Tree_contains (example_git the_store) the_tree (PyBytes ''lost/x'') = Inl (Error_set (- 1))
   \<and> tree_getitem_by_path (example_git the_store) (Block None) (t_tree the_tree)
        (t_repo the_tree) Py_None
        = Inl (TypeError ''Value must be a path string'')
   \<and> Tree_contains (example_git the_store) the_tree Py_None = Inl (TypeError ''unexpected type'')"
proof -
  let ?g = "example_git the_store"
  have found: "git_tree_entry_bypath ?g (t_tree the_tree) ''b/c.txt'' = (0, c_txt)"
    by (simp add: example_bypath the_tree_def the_store_def a_txt_def b_dir_def lost_dir_def)
      (simp add: c_txt_def)
  have missing: "fst (git_tree_entry_bypath ?g (t_tree the_tree) ''b/missing'') = GIT_ENOTFOUND"
    by (simp add: example_bypath the_tree_def the_store_def a_txt_def b_dir_def lost_dir_def
        c_txt_def)
  have lost: "fst (git_tree_entry_bypath ?g (t_tree the_tree) ''lost/x'') = - 1"
    by (simp add: example_bypath the_tree_def the_store_def a_txt_def b_dir_def lost_dir_def)
  have get: "tree_getitem_by_path ?g (Block None) (t_tree the_tree) (t_repo the_tree)
      (PyBytes ''b/c.txt'') = Inr (entry_of c_txt)"
    using found
    by (simp add: tree_getitem_by_path_def example_path GIT_ENOTFOUND_def wrap_tree_entry_def
        or_MemoryError_def entry_of_def)
      (simp add: the_tree_def)
  show ?thesis
    using get missing lost
      contains_and_get_by_path [of ?g the_tree "PyBytes ''b/c.txt''" None "Block None"]
      contains_and_get_by_path [of ?g the_tree "PyBytes ''b/missing''" None "Block None"]
      contains_and_get_by_path [of ?g the_tree "PyBytes ''lost/x''" None "Block None"]
      contains_and_get_by_path [of ?g the_tree Py_None None "Block None"]
    by (simp add: example_path GIT_ENOTFOUND_def)
qed

text \<open>
  The claim as it was written fails for a key that is no path: the two operations do
  not raise the same error.
\<close>

theorem malformed_path_not_identical:
  "Tree_contains (example_git the_store) the_tree Py_None = Inl (TypeError ''unexpected type'')
   \<and> tree_getitem_by_path (example_git the_store) (Block None) (t_tree the_tree)
        (t_repo the_tree) Py_None
        = Inl (TypeError ''Value must be a path string'')
   \<and> projl (Tree_contains (example_git the_store) the_tree Py_None)
        \<noteq> projl (tree_getitem_by_path (example_git the_store) (Block None) (t_tree the_tree)
              (t_repo the_tree) Py_None)"
  by (simp add: Tree_contains_def tree_getitem_by_path_def example_path)

subsection \<open>C6: the operands of a diff of two trees\<close>

text \<open>
  Claim C6: in a call of \<^verbatim>\<open>diff_to_tree\<close> on a Tree with a repository, when \<^verbatim>\<open>other_tree\<close> is
  omitted the second operand handed to the engine is \<^verbatim>\<open>NULL\<close>, which is how libgit2 is
  given the empty tree; when \<^verbatim>\<open>swap\<close> is true (positive, as \<^verbatim>\<open>True\<close> is) the two operands
  change places before the engine is invoked, and what the engine answers is wrapped as
  it is. So a swapped diff of \<open>self\<close> against \<open>other\<close> is the plain diff of \<open>other\<close>
  against \<open>self\<close>, for trees of one repository.
\<close>

theorem diff_to_tree_operands:
  assumes "t_repo self = Some py_repo"
  shows "Tree_diff_to_tree g self (Inr (None, opts, swap)) =
           (if swap > 0 then engine_diff g py_repo None (Some (t_tree self)) opts
            else engine_diff g py_repo (Some (t_tree self)) None opts)
         \<and> Tree_diff_to_tree g self (Inr (Some other, opts, swap)) =
           (if swap > 0 then engine_diff g py_repo (Some (t_tree other)) (Some (t_tree self)) opts
            else engine_diff g py_repo (Some (t_tree self)) (Some (t_tree other)) opts)
         \<and> (t_repo other = t_repo self \<and> swap > 0 \<longrightarrow>
              Tree_diff_to_tree g self (Inr (Some other, opts, swap)) =
              Tree_diff_to_tree g other (Inr (Some self, opts, 0)))"
  using assms by (simp add: Tree_diff_to_tree_def engine_diff_def Let_def)

text \<open>
  The engine of the example answers ten times the length of its first operand plus the
  length of its second, so that the order of the operands shows in the diff.
\<close>

theorem diff_to_tree_operands_witness:
  "t_repo the_tree = Some the_repo \<and> t_repo other_tree = t_repo the_tree
   \<and> Tree_diff_to_tree (example_git the_store) the_tree (Inr (None, no_options, 0))
       = Inr (PyDiff 30 the_repo)
   \<and> Tree_diff_to_tree (example_git the_store) the_tree (Inr (None, no_options, 1))
       = Inr (PyDiff 3 the_repo)
   \<and> Tree_diff_to_tree (example_git the_store) the_tree (Inr (Some other_tree, no_options, 0))
       = Inr (PyDiff 31 the_repo)
   \<and> Tree_diff_to_tree (example_git the_store) the_tree (Inr (Some other_tree, no_options, 1))
       = Inr (PyDiff 13 the_repo)
   \<and> Tree_diff_to_tree (example_git the_store) other_tree (Inr (Some the_tree, no_options, 0))
       = Inr (PyDiff 13 the_repo)"
proof -
  have r: "t_repo the_tree = Some the_repo" by (simp add: the_tree_def)
  have r': "t_repo other_tree = Some the_repo" by (simp add: other_tree_def)
  show ?thesis
    using r r' diff_to_tree_operands [OF r, of "example_git the_store" no_options 0 other_tree]
      diff_to_tree_operands [OF r, of "example_git the_store" no_options 1 other_tree]
    by (simp add: engine_diff_example) (auto simp: the_tree_def other_tree_def)
qed

subsection \<open>C7: resolving an entry\<close>

text \<open>
  Claim C7: \<^verbatim>\<open>resolve_subtree\<close> fails with NotATreeError when the kind of the entry is not
  Tree, \<^verbatim>\<open>resolve_blob\<close> with NotABlobError when it is not Blob, and both, as well as
  containment, indexing and path-division, fail with NoRepositoryContext when no
  repository is associated with the entry. The code tests \<^verbatim>\<open>self->repo == NULL\<close> for that,
  but \<^verbatim>\<open>wrap_tree_entry\<close>, which makes the entries, never stores \<^verbatim>\<open>NULL\<close>: without a
  repository it leaves the field as \<^verbatim>\<open>PyObject_New\<close> handed it over. Here the entry \<^verbatim>\<open>b\<close> is
  looked up in a Tree without repository, in a block whose field still points to a
  repository: the entry carries that pointer, its subtree is resolved through it and
  \<^verbatim>\<open>c.txt\<close> is found in it, where the claim has the \<^verbatim>\<open>ValueError\<close> ``No repository associated
  with this TreeEntry''.
\<close>

theorem entry_of_bare_tree_resolves:
  "t_repo bare_tree = None
   \<and> tree_getitem_by_index True (Block (Some the_repo)) (t_tree bare_tree) (t_repo bare_tree)
        (PyInt 1) = Inr (entry_of b_dir)
   \<and> te_repo (entry_of b_dir) = Some the_repo
   \<and> treeentry_to_subtree (example_git the_store) (entry_of b_dir) = Inr [c_txt]
   \<and> TreeEntry_contains (example_git the_store) (entry_of b_dir) (PyBytes ''c.txt'') = Inr True
   \<and> TreeEntry_truediv (example_git the_store) (Block None) (entry_of b_dir) (PyBytes ''c.txt'')
       = Inr (entry_of c_txt)"
proof -
  have n: "length (t_tree bare_tree) < 2 ^ 31" by (simp add: bare_tree_def)
  have look: "tree_getitem_by_index True (Block (Some the_repo)) (t_tree bare_tree)
      (t_repo bare_tree) (PyInt 1) = Inr (entry_of b_dir)"
    by (simp add: get_by_index_value [OF n] LONG_MIN_def LONG_MAX_def Tree_len_def
        git_tree_entrycount_def)
      (simp add: bare_tree_def entries_of_def handed_out_def entry_of_def)
  have sub: "treeentry_to_subtree (example_git the_store) (entry_of b_dir) = Inr [c_txt]"
    by (simp add: treeentry_to_subtree_def entry_of_def b_dir_def example_git_def the_store_def)
  have path: "git_tree_entry_bypath (example_git the_store) [c_txt] ''c.txt'' = (0, c_txt)"
    by (simp add: example_bypath c_txt_def)
  show ?thesis
    using look sub path
    by (simp add: TreeEntry_contains_def TreeEntry_truediv_def tree_getitem_by_path_def
        example_path GIT_ENOTFOUND_def wrap_tree_entry_def or_MemoryError_def)
      (simp add: bare_tree_def entry_of_def)
qed

subsection \<open>C8: the index handed to diff_to_index\<close>

text \<open>
  Claim C8: in every call of \<^verbatim>\<open>diff_to_index\<close> the supplied value is validated as a genuine
  index before any diff is requested; a value that is not an index fails with a type
  error and the engine is not invoked. The code means to do so (``check whether we're
  passed an index'', ``argument must be an Index'') and tests the attribute \<^verbatim>\<open>_index\<close> in
  place of the type: an object of another class that has the attributes \<^verbatim>\<open>_index\<close> and
  \<^verbatim>\<open>_pointer\<close>, the latter of eight bytes, is let through, its bytes are taken for a
  \<^verbatim>\<open>git_index *\<close> and the engine computes a diff against them.
\<close>

theorem diff_to_index_accepts_impostor:
  "\<not> is_Index impostor
   \<and> Tree_diff_to_index (example_git the_store) the_tree (Inr (impostor, no_options))
       = Inr (PyDiff 3 the_repo)"
  by (simp add: impostor_def Tree_diff_to_index_def example_git_def the_tree_def wrap_diff_def)

subsection \<open>C9: comparison with a value that is no TreeEntry\<close>

text \<open>
  Claim C9: for every TreeEntry \<open>e\<close> and every value \<open>v\<close> that is not a TreeEntry, each
  comparison between \<open>e\<close> and \<open>v\<close>, whatever the operator, returns \<^verbatim>\<open>NotImplemented\<close>: it
  neither raises an error nor answers a boolean.
\<close>

theorem richcompare_NotImplemented:
  "\<not> PyObject_TypeCheck_TreeEntry v \<Longrightarrow> TreeEntry_richcompare g e v op = Inr Py_NotImplemented"
  by (cases v) simp_all

theorem richcompare_NotImplemented_witness:
  "\<not> PyObject_TypeCheck_TreeEntry (PyInt 3)
   \<and> TreeEntry_richcompare (example_git the_store) (entry_of a_txt) (PyInt 3) Py_LT
       = Inr Py_NotImplemented
   \<and> TreeEntry_richcompare (example_git the_store) (entry_of a_txt) (PyBytes ''a.txt'') Py_EQ
       = Inr Py_NotImplemented"
  using richcompare_NotImplemented [of "PyInt 3" "example_git the_store" "entry_of a_txt" Py_LT]
    richcompare_NotImplemented [of "PyBytes ''a.txt''" "example_git the_store"
      "entry_of a_txt" Py_EQ]
  by simp

subsection \<open>C10: an exhausted iterator\<close>

text \<open>
  Claim C10: \<^verbatim>\<open>next()\<close> signals end-of-sequence exactly when the cursor has reached the
  entry count of the owner; once it has, every later \<^verbatim>\<open>next()\<close> on the iterator signals
  end-of-sequence as well and leaves the iterator as it is, whatever the allocator
  does; and the cursor changes only when an entry was read at its position, by one.
\<close>

theorem iterator_exhaustion_stable:
  "(fst (TreeIter_iternext mem py_entry it) = Inr None
      \<longleftrightarrow> it_i it \<ge> length (t_tree (it_owner it)))
   \<and> (fst (TreeIter_iternext mem py_entry it) = Inr None \<longrightarrow>
        nexts ((mem, py_entry) # mems) it = (replicate (Suc (length mems)) (Inr None), it))
   \<and> (it_i (snd (TreeIter_iternext mem py_entry it)) \<noteq> it_i it \<longrightarrow>
        git_tree_entry_byindex (t_tree (it_owner it)) (it_i it) \<noteq> None
        \<and> it_i (snd (TreeIter_iternext mem py_entry it)) = it_i it + 1)
   \<and> it_i it \<le> it_i (snd (TreeIter_iternext mem py_entry it))"
proof -
  have "fst (TreeIter_iternext mem py_entry it) = Inr None \<Longrightarrow>
        nexts ((mem, py_entry) # mems) it = (replicate (Suc (length mems)) (Inr None), it)"
    using nexts_end [of it "(mem, py_entry) # mems"] by (simp add: iternext_end_iff)
  then show ?thesis
    by (auto simp: iternext_end_iff iternext_cursor git_tree_entry_byindex_def)
qed

text \<open>
  On the tree of the scenario: an iterator at the end, asked three times, and an
  iterator before the last entry, asked when there is no memory.
\<close>

theorem iterator_exhaustion_stable_witness:
  "fst (TreeIter_iternext True (Block None) \<lparr>it_owner = the_tree, it_i = 3\<rparr>) = Inr None
   \<and> nexts [(True, Block None), (False, No_memory), (True, No_memory)]
        \<lparr>it_owner = the_tree, it_i = 3\<rparr>
       = ([Inr None, Inr None, Inr None], \<lparr>it_owner = the_tree, it_i = 3\<rparr>)
   \<and> it_i (snd (TreeIter_iternext False No_memory \<lparr>it_owner = the_tree, it_i = 2\<rparr>)) \<noteq> 2
   \<and> git_tree_entry_byindex (t_tree the_tree) 2 \<noteq> None
   \<and> it_i (snd (TreeIter_iternext False No_memory \<lparr>it_owner = the_tree, it_i = 2\<rparr>)) = 3"
  using iterator_exhaustion_stable [of True "Block None" "\<lparr>it_owner = the_tree, it_i = 3\<rparr>"
      "[(False, No_memory), (True, No_memory)]"]
    iterator_exhaustion_stable [of False No_memory "\<lparr>it_owner = the_tree, it_i = 2\<rparr>" "[]"]
  by (simp add: the_tree_def git_tree_entry_byindex_def TreeIter_iternext_def
      git_tree_entry_dup_def)

end
